theory Spec2Isabelle
  imports Complex_Main "HOL-Library.Word" "HOL-Library.Monad_Syntax" "HOL-Library.Log_Nat"
begin

section \<open>MH-Z19C request/response framing (main.go)\<close>

text \<open>
  The development embeds the three functions \<open>buildCommand\<close>, \<open>checksum\<close> and
  \<open>read\<close> of \<open>main.go\<close>. A Go \<open>byte\<close> is an 8-bit word, a Go \<open>int\<close> is an
  integer (the sums below stay under \<open>7 * 255\<close>, far from the 64-bit range), a slice is
  a list. A run-time panic (index out of range) is the value \<open>None\<close>.
\<close>

subsection \<open>Data\<close>

type_synonym byte = "8 word"

text \<open>\<open>type Result struct { Co2Concentration float32 }\<close>: a \<open>float32\<close> is
  represented by the real number it denotes.\<close>

record Result =
  Co2Concentration :: real

text \<open>\<open>const cmdSize = 9\<close>\<close>

definition cmdSize :: nat where
  "cmdSize = 9"

text \<open>The zero value \<open>Result{}\<close>.\<close>

definition Result_zero :: Result where
  "Result_zero = \<lparr>Co2Concentration = 0\<rparr>"

text \<open>
  The errors \<open>read\<close> builds with \<open>fmt.Errorf\<close>, one constructor for each format string,
  carrying the formatted arguments:
  \<^item> \<open>WriteFailure e\<close>: "failed to send command: %v"
  \<^item> \<open>ShortWrite n l\<close>: "failed to send command: %d bytes sent, expected %d"
  \<^item> \<open>ReadFailure e\<close>: "failed to read response: %v"
  \<^item> \<open>ShortResponse l c\<close>: "response too short: %d bytes, expected %d"
  \<^item> \<open>InvalidHeader b0 b1\<close>: "invalid response header: %02X %02X"
  \<^item> \<open>ChecksumMismatch b8\<close>: "invalid checksum: %02X"
\<close>

datatype error =
    WriteFailure string
  | ShortWrite int int
  | ReadFailure string
  | ShortResponse int int
  | InvalidHeader byte byte
  | ChecksumMismatch byte

subsection \<open>Slices\<close>

text \<open>\<open>xs[i]\<close> as an expression: panics when \<open>i\<close> is out of range.\<close>

definition index_at :: "byte list \<Rightarrow> nat \<Rightarrow> byte option" where
  "index_at xs i = (if i < length xs then Some (xs ! i) else None)"

text \<open>\<open>xs[i] = v\<close>: panics when \<open>i\<close> is out of range.\<close>

definition store_at :: "byte list \<Rightarrow> nat \<Rightarrow> byte \<Rightarrow> byte list option" where
  "store_at xs i v = (if i < length xs then Some (xs[i := v]) else None)"

text \<open>\<open>byte(n)\<close> for an \<open>int\<close>: the low eight bits.\<close>

definition byte_of_int :: "int \<Rightarrow> byte" where
  "byte_of_int n = word_of_int n"

text \<open>
  \<open>float32(n)\<close> for an \<open>int\<close>: the nearest value with a 24-bit significand, ties to
  even. An integer of magnitude below \<open>2 ^ 24\<close> is converted exactly.
\<close>

definition float32 :: "int \<Rightarrow> real" where
  "float32 n =
     (let a = \<bar>n\<bar> in
      if a < 2 ^ 24 then real_of_int n
      else
        let e = nat (bitlen a - 24);
            q = a div 2 ^ e;
            r = a mod 2 ^ e;
            q' = (if 2 * r > 2 ^ e then q + 1
                  else if 2 * r = 2 ^ e then (if odd q then q + 1 else q)
                  else q)
        in real_of_int (sgn n * q' * 2 ^ e))"

subsection \<open>buildCommand and checksum\<close>

text \<open>\<open>for i := 3; i < 8; i++ { cmd[i] = 0x00 }\<close>\<close>

function clear_loop :: "byte list \<Rightarrow> nat \<Rightarrow> byte list option" where
  "clear_loop cmd i =
     (if i < 8 then
        (case store_at cmd i 0x00 of
           None \<Rightarrow> None
         | Some cmd' \<Rightarrow> clear_loop cmd' (i + 1))
      else Some cmd)"
  by pat_completeness auto
termination
  by (relation "measure (\<lambda>(cmd, i). 8 - i)") auto

text \<open>\<open>for i := 1; i < 8; i++ { sum += int(xs[i]) }\<close>: the loop that \<open>buildCommand\<close>
  runs over \<open>cmd\<close> and \<open>checksum\<close> over \<open>response\<close>, the same text in both
  (\<open>sm\<close> is the source's \<open>sum\<close>).\<close>

function sum_loop :: "byte list \<Rightarrow> nat \<Rightarrow> int \<Rightarrow> int option" where
  "sum_loop xs i sm =
     (if i < 8 then
        (case index_at xs i of
           None \<Rightarrow> None
         | Some b \<Rightarrow> sum_loop xs (i + 1) (sm + uint b))
      else Some sm)"
  by pat_completeness auto
termination
  by (relation "measure (\<lambda>(xs, i, sm). 8 - i)") auto

declare clear_loop.simps [simp del] sum_loop.simps [simp del]

definition buildCommand :: "byte list option" where
  "buildCommand = do {
     let cmd = replicate cmdSize (0 :: byte);
     cmd \<leftarrow> store_at cmd 0 0xFF;
     cmd \<leftarrow> store_at cmd 1 0x01;
     cmd \<leftarrow> store_at cmd 2 0x86;
     cmd \<leftarrow> clear_loop cmd 3;
     sm \<leftarrow> sum_loop cmd 1 0;
     store_at cmd 8 (byte_of_int (0xFF - sm + 1))
   }"

definition checksum :: "byte list \<Rightarrow> byte option" where
  "checksum response = do {
     sm \<leftarrow> sum_loop response 1 0;
     Some (byte_of_int (0xFF - sm + 1))
   }"

subsection \<open>The transport and the exchange\<close>

text \<open>
  \<open>dev io.ReadWriter\<close>, over a device state \<open>'d\<close>. \<open>Write p\<close> returns the count and
  the error it reports. \<open>Read p\<close> returns the bytes it delivers, the count and the error
  it reports; the delivered bytes are copied over the front of \<open>p\<close>, whose length the
  callee cannot change.
\<close>

record 'd ReadWriter =
  Write :: "byte list \<Rightarrow> 'd \<Rightarrow> (int \<times> string option) \<times> 'd"
  Read :: "byte list \<Rightarrow> 'd \<Rightarrow> (byte list \<times> int \<times> string option) \<times> 'd"

definition copy_into :: "byte list \<Rightarrow> byte list \<Rightarrow> byte list" where
  "copy_into p data = take (length p) data @ drop (length data) p"

text \<open>What \<open>read\<close> does to the outside, in order; \<open>EvSleep\<close> counts milliseconds.\<close>

datatype event = EvWrite "byte list" | EvSleep nat | EvRead

text \<open>The part of \<open>read\<close> after \<open>dev.Read\<close> has returned without error.\<close>

definition decode :: "byte list \<Rightarrow> (Result \<times> error option) option" where
  "decode response =
     (if length response < cmdSize then
        Some (Result_zero, Some (ShortResponse (int (length response)) (int cmdSize)))
      else do {
        r0 \<leftarrow> index_at response 0;
        if r0 \<noteq> 0xFF then do {
          r1 \<leftarrow> index_at response 1;
          Some (Result_zero, Some (InvalidHeader r0 r1))
        } else do {
          r1 \<leftarrow> index_at response 1;
          if r1 \<noteq> 0x86 then Some (Result_zero, Some (InvalidHeader r0 r1))
          else do {
            r8 \<leftarrow> index_at response 8;
            c \<leftarrow> checksum response;
            if r8 \<noteq> c then Some (Result_zero, Some (ChecksumMismatch r8))
            else do {
              h \<leftarrow> index_at response 2;
              l \<leftarrow> index_at response 3;
              let high = uint h;
              let low = uint l;
              let concentration = float32 (high * 256 + low);
              Some (\<lparr>Co2Concentration = concentration\<rparr>, None)
            }
          }
        }
      })"

definition read ::
  "'d ReadWriter \<Rightarrow> byte list \<Rightarrow> 'd \<times> event list \<Rightarrow>
     ((Result \<times> error option) \<times> ('d \<times> event list)) option" where
  "read dev cmd w =
     (let response = replicate cmdSize (0 :: byte);
          (d, tr) = w;
          ((n, err), d) = Write dev cmd d;
          tr = tr @ [EvWrite cmd]
      in case err of
           Some e \<Rightarrow> Some ((Result_zero, Some (WriteFailure e)), (d, tr))
         | None \<Rightarrow>
             if n \<noteq> int (length cmd) then
               Some ((Result_zero, Some (ShortWrite n (int (length cmd)))), (d, tr))
             else
               let tr = tr @ [EvSleep 150];
                   ((data, _, err), d) = Read dev response d;
                   response = copy_into response data;
                   tr = tr @ [EvRead]
               in case err of
                    Some e \<Rightarrow> Some ((Result_zero, Some (ReadFailure e)), (d, tr))
                  | None \<Rightarrow> map_option (\<lambda>out. (out, (d, tr))) (decode response))"

subsection \<open>Concrete transports\<close>

text \<open>
  A transport whose two replies are fixed in advance, over a device without state: \<open>Write\<close>
  answers \<open>w\<close> and \<open>Read\<close> answers \<open>r\<close>, whatever they are handed. It serves to run
  \<open>read\<close> on concrete exchanges.
\<close>

definition scripted ::
  "int \<times> string option \<Rightarrow> byte list \<times> int \<times> string option \<Rightarrow> unit ReadWriter" where
  "scripted w r = \<lparr>Write = (\<lambda>p d. (w, d)), Read = (\<lambda>p d. (r, d))\<rparr>"

text \<open>The nine bytes of the read-concentration command, written out.\<close>

definition command :: "byte list" where
  "command = [0xFF, 0x01, 0x86, 0x00, 0x00, 0x00, 0x00, 0x00, 0x79]"

section \<open>Auxiliary facts\<close>

subsection \<open>The loops over a frame\<close>

lemma clear_loop_frame:
  "8 \<le> length xs \<Longrightarrow> clear_loop xs 3 = Some (xs[3 := 0, 4 := 0, 5 := 0, 6 := 0, 7 := 0])"
  by (simp add: clear_loop.simps [of _ "numeral k" for k] store_at_def)

lemma sum_loop_from_2:
  "8 \<le> length xs \<Longrightarrow>
   sum_loop xs 2 s =
     Some (s + uint (xs ! 2) + uint (xs ! 3) + uint (xs ! 4)
           + uint (xs ! 5) + uint (xs ! 6) + uint (xs ! 7))"
  by (simp add: sum_loop.simps [of _ "numeral k" for k] index_at_def)

lemma sum_loop_frame:
  "8 \<le> length xs \<Longrightarrow>
   sum_loop xs 1 0 =
     Some (uint (xs ! 1) + uint (xs ! 2) + uint (xs ! 3) + uint (xs ! 4)
           + uint (xs ! 5) + uint (xs ! 6) + uint (xs ! 7))"
  by (subst sum_loop.simps) (simp add: index_at_def sum_loop_from_2 del: One_nat_def)

text \<open>The accumulator never leaves the range of a 64-bit \<open>int\<close>.\<close>

lemma sum_loop_bound:
  assumes "8 \<le> length xs" and "sum_loop xs 1 0 = Some s"
  shows "0 \<le> s \<and> s \<le> 7 * 255"
proof -
  have b: "uint (xs ! i) \<le> 255" for i
    using uint_bounded [of "xs ! i"] by simp
  have s: "s = uint (xs ! 1) + uint (xs ! 2) + uint (xs ! 3) + uint (xs ! 4)
               + uint (xs ! 5) + uint (xs ! 6) + uint (xs ! 7)"
    using assms by (simp add: sum_loop_frame del: One_nat_def)
  have "0 \<le> s"
    unfolding s by (intro add_nonneg_nonneg) simp_all
  moreover have "s \<le> 7 * 255"
    unfolding s using b [of 1] b [of 2] b [of 3] b [of 4] b [of 5] b [of 6] b [of 7]
    by linarith
  ultimately show ?thesis by simp
qed

lemma sum_1_7:
  fixes f :: "nat \<Rightarrow> int"
  shows "(\<Sum>i = 1..7. f i) = f 1 + f 2 + f 3 + f 4 + f 5 + f 6 + f 7"
proof -
  have "{1..7::nat} = {1, 2, 3, 4, 5, 6, 7}" by auto
  then show ?thesis by (simp del: One_nat_def)
qed

lemma checksum_frame:
  "8 \<le> length r \<Longrightarrow>
   checksum r = Some (byte_of_int (0xFF - (\<Sum>i = 1..7. uint (r ! i)) + 1))"
  by (simp only: checksum_def sum_loop_frame sum_1_7 bind.bind_lunit)

lemma uint_byte_of_int: "uint (byte_of_int n) = n mod 256"
  by (simp add: byte_of_int_def uint_word_of_int)

lemma byte_of_int_eq_iff: "b = byte_of_int n \<longleftrightarrow> uint b = n mod 256"
proof
  assume "b = byte_of_int n"
  then show "uint b = n mod 256" by (simp add: uint_byte_of_int)
next
  assume "uint b = n mod 256"
  then have "uint b = uint (byte_of_int n)" by (simp add: uint_byte_of_int)
  then show "b = byte_of_int n" by (simp only: word_uint_eq_iff)
qed

subsection \<open>The conversion to float32\<close>

lemma float32_exact: "\<bar>n\<bar> < 2 ^ 24 \<Longrightarrow> float32 n = real_of_int n"
  by (simp add: float32_def)

lemma float32_bytes:
  "float32 (uint (h :: byte) * 256 + uint (l :: byte)) = real_of_int (uint h * 256 + uint l)"
proof -
  have "uint h < 256" "uint l < 256" "0 \<le> uint h" "0 \<le> uint l"
    using uint_bounded [of h] uint_bounded [of l] by simp_all
  then have "\<bar>uint h * 256 + uint l\<bar> < 2 ^ 24" by simp
  then show ?thesis by (rule float32_exact)
qed

subsection \<open>The response buffer and its decoding\<close>

lemma length_copy_into: "length (copy_into p data) = length p"
  by (simp add: copy_into_def)

lemma length_response: "length (copy_into (replicate cmdSize 0) data) = 9"
  by (simp add: length_copy_into cmdSize_def)

lemma decode_frame:
  "length r = 9 \<Longrightarrow>
   decode r =
     Some (if r ! 0 \<noteq> 0xFF \<or> r ! 1 \<noteq> 0x86
             then (Result_zero, Some (InvalidHeader (r ! 0) (r ! 1)))
           else if r ! 8 \<noteq> byte_of_int (0xFF - (\<Sum>i = 1..7. uint (r ! i)) + 1)
             then (Result_zero, Some (ChecksumMismatch (r ! 8)))
           else (\<lparr>Co2Concentration = real_of_int (uint (r ! 2) * 256 + uint (r ! 3))\<rparr>, None))"
  by (simp add: decode_def cmdSize_def index_at_def checksum_frame float32_bytes del: One_nat_def)

lemma read_after_read:
  assumes "Write dev cmd d = ((int (length cmd), None), d1)"
    and "Read dev (replicate cmdSize 0) d1 = ((data, n, None), d2)"
  shows "read dev cmd (d, tr) =
           map_option (\<lambda>out. (out, (d2, tr @ [EvWrite cmd, EvSleep 150, EvRead])))
             (decode (copy_into (replicate cmdSize 0) data))"
  using assms by (simp add: read_def)

text \<open>The buffer always holds nine bytes, so no index of \<open>read\<close> is out of range.\<close>

lemma read_never_panics: "read dev cmd w \<noteq> None"
  by (auto simp: read_def Let_def decode_frame length_response split: prod.splits option.splits)

text \<open>The test \<open>len(response) < cmdSize\<close> is on the length of the buffer, which is
  \<open>cmdSize\<close>: the branch is never taken.\<close>

lemma read_never_short_response:
  "read dev cmd w \<noteq> Some ((res, Some (ShortResponse a b)), w')"
  by (auto simp: read_def Let_def decode_frame length_response
           split: prod.splits option.splits if_splits)

section \<open>The checksum and the command frame\<close>

text \<open>
  C2. For every 9-byte frame \<open>r\<close>, \<open>checksum r\<close> returns the byte whose value is
  \<open>(0xFF - (r[1] + ... + r[7]) + 1) mod 256\<close>, the sum being taken over the integers.
  Byte 8 of the frame that \<open>buildCommand\<close> constructs is that value for the frame's own
  bytes 1 to 7, and a response with the header \<open>0xFF 0x86\<close> is decoded without error
  exactly when its byte 8 is that value.
\<close>

theorem checksum_formula:
  assumes "length r = 9"
  shows "map_option uint (checksum r) = Some ((0xFF - (\<Sum>i = 1..7. uint (r ! i)) + 1) mod 256)
       \<and> (\<exists>c. buildCommand = Some c
              \<and> uint (c ! 8) = (0xFF - (\<Sum>i = 1..7. uint (c ! i)) + 1) mod 256)
       \<and> (r ! 0 = 0xFF \<and> r ! 1 = 0x86 \<longrightarrow>
            ((\<exists>res. decode r = Some (res, None))
               \<longleftrightarrow> uint (r ! 8) = (0xFF - (\<Sum>i = 1..7. uint (r ! i)) + 1) mod 256))"
proof -
  have a: "map_option uint (checksum r) = Some ((0xFF - (\<Sum>i = 1..7. uint (r ! i)) + 1) mod 256)"
    using assms by (simp add: checksum_frame uint_byte_of_int)
  have bc: "buildCommand = Some command"
    unfolding command_def by code_simp
  have "uint (command ! 8) = (0xFF - (\<Sum>i = 1..7. uint (command ! i)) + 1) mod 256"
    unfolding sum_1_7 by (simp add: command_def)
  with bc have b: "\<exists>c. buildCommand = Some c
              \<and> uint (c ! 8) = (0xFF - (\<Sum>i = 1..7. uint (c ! i)) + 1) mod 256"
    by blast
  have c: "r ! 0 = 0xFF \<and> r ! 1 = 0x86 \<longrightarrow>
            ((\<exists>res. decode r = Some (res, None))
               \<longleftrightarrow> uint (r ! 8) = (0xFF - (\<Sum>i = 1..7. uint (r ! i)) + 1) mod 256)"
    using assms by (simp add: decode_frame byte_of_int_eq_iff)
  from a b c show ?thesis by blast
qed

text \<open>The frame \<open>FF 86 03 E8 00 00 00 00 8F\<close>: its checksum is \<open>0x8F = 143\<close>, and it
  is decoded without error.\<close>

theorem checksum_formula_witness:
  "length [0xFF, 0x86, 0x03, 0xE8, 0, 0, 0, 0, 0x8F :: byte] = 9
   \<and> map_option uint (checksum [0xFF, 0x86, 0x03, 0xE8, 0, 0, 0, 0, 0x8F]) = Some 143
   \<and> (\<exists>res. decode [0xFF, 0x86, 0x03, 0xE8, 0, 0, 0, 0, 0x8F] = Some (res, None))"
proof -
  have h: "length [0xFF, 0x86, 0x03, 0xE8, 0, 0, 0, 0, 0x8F :: byte] = 9" by simp
  show ?thesis using checksum_formula [OF h] unfolding sum_1_7 by simp
qed

text \<open>
  C4. The frame that \<open>buildCommand\<close> returns passes the validation applied to
  responses: \<open>buildCommand\<close> returns a frame without a panic, \<open>checksum\<close> of that
  frame returns a byte without a panic, the frame has a byte at index 8, and the two
  bytes are the same.
\<close>

theorem buildCommand_roundtrip:
  "\<exists>c b. buildCommand = Some c \<and> length c = 9
         \<and> checksum c = Some b \<and> index_at c 8 = Some b"
proof -
  have "buildCommand = Some command" unfolding command_def by code_simp
  moreover have "length command = 9" by (simp add: command_def)
  moreover have "checksum command = Some 0x79" by code_simp
  moreover have "index_at command 8 = Some 0x79" by code_simp
  ultimately show ?thesis by blast
qed

text \<open>
  C8. \<open>buildCommand\<close> takes no input and reads no state: it is one value, the frame
  \<open>FF 01 86 00 00 00 00 00 79\<close>, returned without a panic. Its byte 8, \<open>0x79\<close>, is
  the checksum over bytes 1 to 7: \<open>checksum\<close> returns it for the frame, whatever stands
  at index 8.
\<close>

theorem buildCommand_frame:
  "buildCommand = Some [0xFF, 0x01, 0x86, 0x00, 0x00, 0x00, 0x00, 0x00, 0x79]
   \<and> checksum [0xFF, 0x01, 0x86, 0x00, 0x00, 0x00, 0x00, 0x00, b8] = Some 0x79"
proof -
  have "buildCommand = Some [0xFF, 0x01, 0x86, 0x00, 0x00, 0x00, 0x00, 0x00, 0x79]"
    by code_simp
  moreover have "checksum [0xFF, 0x01, 0x86, 0x00, 0x00, 0x00, 0x00, 0x00, b8] = Some 0x79"
  proof -
    let ?f = "[0xFF, 0x01, 0x86, 0x00, 0x00, 0x00, 0x00, 0x00, b8]"
    have "checksum ?f = Some (byte_of_int (0xFF - (\<Sum>i = 1..7. uint (?f ! i)) + 1))"
      by (rule checksum_frame) simp
    then show ?thesis
      unfolding sum_1_7 by (simp add: byte_of_int_def)
  qed
  ultimately show ?thesis by simp
qed

text \<open>
  C9. \<open>checksum\<close> reads indices 1 to 7 only: two 9-byte frames that agree there have
  the same checksum (and it is computed without a panic); overwriting byte 0 or byte 8
  of a frame leaves its checksum as it was.
\<close>

theorem checksum_depends:
  assumes "length a = 9" and "length b = 9" and "\<forall>i\<in>{1..7}. a ! i = b ! i"
  shows "checksum a = checksum b \<and> checksum a \<noteq> None
       \<and> checksum (a[0 := x]) = checksum a \<and> checksum (a[8 := y]) = checksum a"
  using assms by (simp add: checksum_frame)

text \<open>Two frames that differ at indices 0 and 8 only.\<close>

theorem checksum_depends_witness:
  "checksum [0xFF, 0x86, 0x03, 0xE8, 0, 0, 0, 0, 0x8F]
     = checksum [0x00, 0x86, 0x03, 0xE8, 0, 0, 0, 0, 0x11]"
proof -
  let ?a = "[0xFF, 0x86, 0x03, 0xE8, 0, 0, 0, 0, 0x8F] :: byte list"
  let ?b = "[0x00, 0x86, 0x03, 0xE8, 0, 0, 0, 0, 0x11] :: byte list"
  have h1: "length ?a = 9" and h2: "length ?b = 9" by simp_all
  have "{1..7::nat} = {1, 2, 3, 4, 5, 6, 7}" by auto
  then have h3: "\<forall>i\<in>{1..7}. ?a ! i = ?b ! i" by (simp del: One_nat_def)
  show ?thesis using checksum_depends [OF h1 h2 h3] by simp
qed

section \<open>The exchange\<close>

text \<open>
  C3. When the write is complete and the read reports no error, and the response buffer
  \<open>r\<close> then starts with \<open>0xFF 0x86\<close> and holds at index 8 the checksum of its bytes
  1 to 7, \<open>read\<close> returns no error and the measurement \<open>r[2] * 256 + r[3]\<close>: the
  conversion to \<open>float32\<close> is exact.
\<close>

theorem read_valid_frame:
  assumes "Write dev cmd d = ((int (length cmd), None), d1)"
    and "Read dev (replicate cmdSize 0) d1 = ((data, n, None), d2)"
    and "r = copy_into (replicate cmdSize 0) data"
    and "r ! 0 = 0xFF" and "r ! 1 = 0x86" and "checksum r = Some (r ! 8)"
  shows "read dev cmd (d, tr) =
           Some ((\<lparr>Co2Concentration = real_of_int (uint (r ! 2) * 256 + uint (r ! 3))\<rparr>, None),
                 (d2, tr @ [EvWrite cmd, EvSleep 150, EvRead]))"
proof -
  have len: "length r = 9" using assms(3) by (simp add: length_response)
  have "r ! 8 = byte_of_int (0xFF - (\<Sum>i = 1..7. uint (r ! i)) + 1)"
    using assms(6) len by (simp add: checksum_frame)
  then have "decode r =
      Some (\<lparr>Co2Concentration = real_of_int (uint (r ! 2) * 256 + uint (r ! 3))\<rparr>, None)"
    using len assms(4,5) by (simp add: decode_frame)
  then show ?thesis
    using read_after_read [OF assms(1,2)] assms(3) by simp
qed

text \<open>The response \<open>FF 86 03 E8 00 00 00 00 8F\<close> is decoded to 1000.\<close>

theorem read_valid_frame_witness:
  "read (scripted (9, None) ([0xFF, 0x86, 0x03, 0xE8, 0, 0, 0, 0, 0x8F], 9, None)) command ((), []) =
     Some ((\<lparr>Co2Concentration = 1000\<rparr>, None), ((), [EvWrite command, EvSleep 150, EvRead]))"
proof -
  let ?dev = "scripted (9, None) ([0xFF, 0x86, 0x03, 0xE8, 0, 0, 0, 0, 0x8F], 9, None)"
  let ?r = "[0xFF, 0x86, 0x03, 0xE8, 0, 0, 0, 0, 0x8F] :: byte list"
  have h1: "Write ?dev command () = ((int (length command), None), ())"
    by (simp add: scripted_def command_def)
  have h2: "Read ?dev (replicate cmdSize 0) () = ((?r, 9, None), ())"
    by (simp add: scripted_def)
  have h3: "?r = copy_into (replicate cmdSize 0) ?r"
    by (simp add: copy_into_def cmdSize_def)
  have h4: "?r ! 0 = 0xFF" and h5: "?r ! 1 = 0x86" by simp_all
  have h6: "checksum ?r = Some (?r ! 8)" by code_simp
  show ?thesis
    using read_valid_frame [OF h1 h2 h3 h4 h5 h6, of "[]"] by simp
qed

text \<open>
  C5. When the command has nine bytes and \<open>Write\<close> reports fewer than nine without an
  error, \<open>read\<close> returns the short-write error, the device is left as \<open>Write\<close> left it
  and the only event is the write: neither the wait nor the read takes place. In every
  run the events are the write alone when the write failed or was short, and the write,
  the wait of 150 ms and the read, in this order, otherwise.
\<close>

theorem read_short_write:
  assumes "length cmd = 9" and "Write dev cmd d = ((n, e), d1)"
  shows "(e = None \<and> n < 9 \<longrightarrow>
            read dev cmd (d, tr) =
              Some ((Result_zero, Some (ShortWrite n 9)), (d1, tr @ [EvWrite cmd])))
       \<and> (\<exists>out d'. read dev cmd (d, tr) =
              Some (out, (d', if e = None \<and> n = 9 then tr @ [EvWrite cmd, EvSleep 150, EvRead]
                              else tr @ [EvWrite cmd])))"
proof -
  have a: "e = None \<and> n < 9 \<longrightarrow>
            read dev cmd (d, tr) =
              Some ((Result_zero, Some (ShortWrite n 9)), (d1, tr @ [EvWrite cmd]))"
    using assms by (simp add: read_def)
  have b: "\<exists>out d'. read dev cmd (d, tr) =
              Some (out, (d', if e = None \<and> n = 9 then tr @ [EvWrite cmd, EvSleep 150, EvRead]
                              else tr @ [EvWrite cmd]))"
    using assms
    by (auto simp: read_def Let_def decode_frame length_response split: prod.splits option.splits)
  from a b show ?thesis by blast
qed

text \<open>A transport that reports 5 of the 9 bytes written.\<close>

theorem read_short_write_witness:
  "read (scripted (5, None) ([0xFF, 0x86, 0x03, 0xE8, 0, 0, 0, 0, 0x8F], 9, None)) command ((), []) =
     Some ((Result_zero, Some (ShortWrite 5 9)), ((), [EvWrite command]))"
proof -
  let ?dev = "scripted (5, None) ([0xFF, 0x86, 0x03, 0xE8, 0, 0, 0, 0, 0x8F], 9, None)"
  have h1: "length command = 9" by (simp add: command_def)
  have h2: "Write ?dev command () = ((5, None), ())" by (simp add: scripted_def)
  show ?thesis using read_short_write [OF h1 h2, of "[]"] by simp
qed

text \<open>
  C6. When the write is complete and the read reports no error, and byte 0 of the
  response buffer is not \<open>0xFF\<close> or byte 1 is not \<open>0x86\<close>, \<open>read\<close> returns the
  invalid-header error with both bytes as observed, and the zero \<open>Result\<close>.
\<close>

theorem read_invalid_header:
  assumes "Write dev cmd d = ((int (length cmd), None), d1)"
    and "Read dev (replicate cmdSize 0) d1 = ((data, n, None), d2)"
    and "r = copy_into (replicate cmdSize 0) data"
    and "r ! 0 \<noteq> 0xFF \<or> r ! 1 \<noteq> 0x86"
  shows "read dev cmd (d, tr) =
           Some ((Result_zero, Some (InvalidHeader (r ! 0) (r ! 1))),
                 (d2, tr @ [EvWrite cmd, EvSleep 150, EvRead]))"
proof -
  have len: "length r = 9" using assms(3) by (simp add: length_response)
  have "decode r = Some (Result_zero, Some (InvalidHeader (r ! 0) (r ! 1)))"
    using len assms(4) by (simp add: decode_frame)
  then show ?thesis
    using read_after_read [OF assms(1,2)] assms(3) by simp
qed

text \<open>A response whose byte 0 is \<open>0x00\<close>, the rest a valid frame.\<close>

theorem read_invalid_header_witness:
  "read (scripted (9, None) ([0x00, 0x86, 0x03, 0xE8, 0, 0, 0, 0, 0x8F], 9, None)) command ((), []) =
     Some ((Result_zero, Some (InvalidHeader 0x00 0x86)),
           ((), [EvWrite command, EvSleep 150, EvRead]))"
proof -
  let ?dev = "scripted (9, None) ([0x00, 0x86, 0x03, 0xE8, 0, 0, 0, 0, 0x8F], 9, None)"
  let ?r = "[0x00, 0x86, 0x03, 0xE8, 0, 0, 0, 0, 0x8F] :: byte list"
  have h1: "Write ?dev command () = ((int (length command), None), ())"
    by (simp add: scripted_def command_def)
  have h2: "Read ?dev (replicate cmdSize 0) () = ((?r, 9, None), ())"
    by (simp add: scripted_def)
  have h3: "?r = copy_into (replicate cmdSize 0) ?r"
    by (simp add: copy_into_def cmdSize_def)
  have h4: "?r ! 0 \<noteq> 0xFF \<or> ?r ! 1 \<noteq> 0x86" by simp
  show ?thesis
    using read_invalid_header [OF h1 h2 h3 h4, of "[]"] by simp
qed

text \<open>
  C7. When the write is complete and the read reports no error, and the response
  buffer has the header \<open>0xFF 0x86\<close> but its byte 8 is not the checksum of its bytes 1
  to 7, \<open>read\<close> returns the checksum error with byte 8 as observed, and the zero
  \<open>Result\<close>.
\<close>

theorem read_checksum_mismatch:
  assumes "Write dev cmd d = ((int (length cmd), None), d1)"
    and "Read dev (replicate cmdSize 0) d1 = ((data, n, None), d2)"
    and "r = copy_into (replicate cmdSize 0) data"
    and "r ! 0 = 0xFF" and "r ! 1 = 0x86"
    and "checksum r = Some c" and "r ! 8 \<noteq> c"
  shows "read dev cmd (d, tr) =
           Some ((Result_zero, Some (ChecksumMismatch (r ! 8))),
                 (d2, tr @ [EvWrite cmd, EvSleep 150, EvRead]))"
proof -
  have len: "length r = 9" using assms(3) by (simp add: length_response)
  have "c = byte_of_int (0xFF - (\<Sum>i = 1..7. uint (r ! i)) + 1)"
    using assms(6) len by (simp add: checksum_frame)
  then have "decode r = Some (Result_zero, Some (ChecksumMismatch (r ! 8)))"
    using len assms(4,5,7) by (simp add: decode_frame)
  then show ?thesis
    using read_after_read [OF assms(1,2)] assms(3) by simp
qed

text \<open>A response whose byte 8 is \<open>0x90\<close>, one more than the checksum \<open>0x8F\<close>.\<close>

theorem read_checksum_mismatch_witness:
  "read (scripted (9, None) ([0xFF, 0x86, 0x03, 0xE8, 0, 0, 0, 0, 0x90], 9, None)) command ((), []) =
     Some ((Result_zero, Some (ChecksumMismatch 0x90)),
           ((), [EvWrite command, EvSleep 150, EvRead]))"
proof -
  let ?dev = "scripted (9, None) ([0xFF, 0x86, 0x03, 0xE8, 0, 0, 0, 0, 0x90], 9, None)"
  let ?r = "[0xFF, 0x86, 0x03, 0xE8, 0, 0, 0, 0, 0x90] :: byte list"
  have h1: "Write ?dev command () = ((int (length command), None), ())"
    by (simp add: scripted_def command_def)
  have h2: "Read ?dev (replicate cmdSize 0) () = ((?r, 9, None), ())"
    by (simp add: scripted_def)
  have h3: "?r = copy_into (replicate cmdSize 0) ?r"
    by (simp add: copy_into_def cmdSize_def)
  have h4: "?r ! 0 = 0xFF" and h5: "?r ! 1 = 0x86" by simp_all
  have h6: "checksum ?r = Some 0x8F" by code_simp
  have h7: "?r ! 8 \<noteq> 0x8F" by simp
  show ?thesis
    using read_checksum_mismatch [OF h1 h2 h3 h4 h5 h6 h7, of "[]"] by simp
qed

text \<open>
  C10. Whenever \<open>read\<close> returns an error, whichever it is, the \<open>Result\<close> beside it is
  the zero value: its \<open>Co2Concentration\<close> is 0.
\<close>

theorem read_error_zero_result:
  "read dev cmd w = Some ((res, Some e), w') \<Longrightarrow> res = Result_zero \<and> Co2Concentration res = 0"
  by (auto simp: read_def Let_def decode_frame length_response Result_zero_def
           split: prod.splits option.splits if_splits)

text \<open>A transport whose \<open>Write\<close> fails.\<close>

theorem read_error_zero_result_witness:
  "read (scripted (0, Some ''port closed'') ([], 0, None)) command ((), []) =
     Some ((Result_zero, Some (WriteFailure ''port closed'')), ((), [EvWrite command]))
   \<and> Co2Concentration Result_zero = 0"
proof -
  have h: "read (scripted (0, Some ''port closed'') ([], 0, None)) command ((), []) =
     Some ((Result_zero, Some (WriteFailure ''port closed'')), ((), [EvWrite command]))"
    by (simp add: read_def scripted_def)
  show ?thesis using read_error_zero_result [OF h] h by simp
qed

text \<open>
  C1 (the code departs from it). A transport whose \<open>Read\<close> reports 4 bytes and no
  error, having delivered \<open>FF 86 00 7A\<close>: the count is dropped, the five bytes of the
  buffer that were not filled are still 0, and byte 8, 0, is the checksum of
  \<open>86 00 7A 00 00 00 00\<close>. \<open>read\<close> returns the measurement 122 and no error. A
  transport whose \<open>Read\<close> reports 0 bytes and no error gets the invalid-header error
  for the untouched buffer, not the short-response one.
\<close>

theorem read_short_read_decoded:
  "read (scripted (9, None) ([0xFF, 0x86, 0x00, 0x7A], 4, None)) command ((), []) =
     Some ((\<lparr>Co2Concentration = 122\<rparr>, None), ((), [EvWrite command, EvSleep 150, EvRead]))
   \<and> read (scripted (9, None) ([], 0, None)) command ((), []) =
     Some ((Result_zero, Some (InvalidHeader 0x00 0x00)),
           ((), [EvWrite command, EvSleep 150, EvRead]))"
proof -
  have "read (scripted (9, None) ([0xFF, 0x86, 0x00, 0x7A], 4, None)) command ((), []) =
     Some ((\<lparr>Co2Concentration = 122\<rparr>, None), ((), [EvWrite command, EvSleep 150, EvRead]))"
    by code_simp
  moreover have "read (scripted (9, None) ([], 0, None)) command ((), []) =
     Some ((Result_zero, Some (InvalidHeader 0x00 0x00)),
           ((), [EvWrite command, EvSleep 150, EvRead]))"
    by code_simp
  ultimately show ?thesis by simp
qed

end
